theory Spec2Isabelle
  imports Main "HOL-Library.Product_Lexorder"
begin

section \<open>The create-payment edge function\<close>

text \<open>
  This theory embeds \<^verbatim>\<open>supabase/functions/create-payment/index.ts\<close>: the handler passed to
  \<^verbatim>\<open>serve\<close>. The handler is one \<^verbatim>\<open>try\<close> block of awaited calls to four collaborators
  (the identity service, the relational store, the clock, the Midtrans gateway) followed by
  a \<^verbatim>\<open>catch\<close> block that turns every thrown error into a response.

  \<^item> A thrown error is a value: the \<^verbatim>\<open>try\<close> block returns \<open>Inl message\<close> where the
    source throws, and the \<^verbatim>\<open>catch\<close> block reads nothing but the message.
  \<^item> The collaborators are fields of a record \<open>world\<close>; what they answer is arbitrary.
  \<^item> The only table the handler writes, \<^verbatim>\<open>transactions\<close>, and everything the handler
    does that can be observed from outside (console output, requests to the collaborators)
    are threaded through the handler as a \<open>state\<close>: the ledger and a trace of events in
    the order of their occurrence.
  \<^item> JavaScript strings are \<open>string\<close>; numbers that the handler reads are integers
    (\<open>int\<close>); an HTTP status is a \<open>nat\<close>.
\<close>

subsection \<open>JavaScript values\<close>

datatype json =
    JNull
  | JBool bool
  | JNum int
  | JStr string
  | JArr "json list"
  | JObj "(string \<times> json) list"

text \<open>The result of an awaited call to a collaborator: it throws, or it returns.\<close>

datatype 'a outcome = Threw string | Returned 'a

text \<open>\<^verbatim>\<open>!v\<close> for a value that came out of \<^verbatim>\<open>JSON.parse\<close>.\<close>

fun falsy :: "json \<Rightarrow> bool" where
  "falsy JNull = True"
| "falsy (JBool b) = (\<not> b)"
| "falsy (JNum n) = (n = 0)"
| "falsy (JStr s) = (s = [])"
| "falsy (JArr xs) = False"
| "falsy (JObj kvs) = False"

text \<open>
  Reading the property \<open>p\<close> of a parsed value, as \<^verbatim>\<open>const { paket } = v\<close> and
  \<^verbatim>\<open>v.token\<close> do: a TypeError on \<^verbatim>\<open>null\<close> (its message is the engine's, a parameter
  here), \<^verbatim>\<open>undefined\<close> (\<open>None\<close>) on a primitive, an array or an object without the
  property. The list of a \<open>JObj\<close> holds the object's own properties.
\<close>

definition getProp :: "(string \<Rightarrow> string) \<Rightarrow> json \<Rightarrow> string \<Rightarrow> string + json option" where
  "getProp typeErrorMessage v p =
     (case v of
        JNull \<Rightarrow> Inl (typeErrorMessage p)
      | JObj kvs \<Rightarrow> Inr (map_of kvs p)
      | _ \<Rightarrow> Inr None)"

text \<open>\<^verbatim>\<open>s.replace(pat, rep)\<close> with a string pattern: the first occurrence only.\<close>

fun replace :: "string \<Rightarrow> string \<Rightarrow> string \<Rightarrow> string" where
  "replace [] pat rep = (if pat = [] then rep else [])"
| "replace (c # cs) pat rep =
     (if take (length pat) (c # cs) = pat then rep @ drop (length pat) (c # cs)
      else c # replace cs pat rep)"

text \<open>\<^verbatim>\<open>s.substring(0, n)\<close>.\<close>

definition substring0 :: "string \<Rightarrow> nat \<Rightarrow> string" where
  "substring0 s n = take n s"

subsection \<open>Numbers as decimal strings\<close>

text \<open>
  \<^verbatim>\<open>Number.prototype.toString\<close> and template-literal interpolation of an integer: the
  decimal digits, most significant first, after a minus sign when negative.
\<close>

definition decimalDigits :: string where
  "decimalDigits = ''0123456789''"

definition digit_char :: "nat \<Rightarrow> char" where
  "digit_char d = decimalDigits ! d"

function digits :: "nat \<Rightarrow> string" where
  "digits n = (if n < 10 then [digit_char n] else digits (n div 10) @ [digit_char (n mod 10)])"
  by pat_completeness auto
termination
  by (relation "measure (\<lambda>n. n)") auto

declare digits.simps [simp del]

definition toString :: "int \<Rightarrow> string" where
  "toString i = (if i < 0 then CHR ''-'' # digits (nat (- i)) else digits (nat i))"

text \<open>Reading a decimal string back, used to show that \<open>toString\<close> loses nothing.\<close>

definition digit_val :: "char \<Rightarrow> nat" where
  "digit_val c = length (takeWhile (\<lambda>x. x \<noteq> c) decimalDigits)"

definition parseDigits :: "string \<Rightarrow> nat" where
  "parseDigits s = foldl (\<lambda>a c. 10 * a + digit_val c) 0 s"

definition parseInt :: "string \<Rightarrow> int" where
  "parseInt s =
     (case s of
        [] \<Rightarrow> 0
      | c # cs \<Rightarrow> if c = CHR ''-'' then - int (parseDigits cs) else int (parseDigits (c # cs)))"

subsection \<open>Rows of the relational store\<close>

text \<open>
  The columns are those of \<^verbatim>\<open>src/integrations/supabase/types.ts\<close> that the handler reads
  or writes; \<open>None\<close> is SQL's \<^verbatim>\<open>NULL\<close> in a nullable column. \<open>created_at\<close> is the
  instant the timestamp denotes.
\<close>

record premium_package =
  price :: int
  duration_months :: int
  name :: string
  is_active :: "bool option"
  is_popular :: "bool option"
  created_at :: int

record profile =
  profile_id :: string
  nama :: string

record transaction =
  tx_user_id :: string
  tx_paket :: string
  tx_amount :: int
  tx_midtrans_order_id :: string
  tx_status :: string

subsection \<open>The identity service, the gateway, the request and the response\<close>

record user =
  id' :: string
  email :: "string option"

text \<open>\<^verbatim>\<open>{ data: { user }, error }\<close> of \<^verbatim>\<open>auth.getUser\<close>; an error is its message.\<close>

record auth_response =
  auth_user :: "user option"
  auth_error :: "string option"

text \<open>The body of the request to Midtrans (\<^verbatim>\<open>snapTransaction\<close>).\<close>

record transaction_details =
  order_id :: string
  gross_amount :: int

record customer_details =
  first_name :: string
  customer_email :: "string option"

record item_detail =
  item_id :: string
  item_price :: int
  quantity :: int
  item_name :: string

record snapTransaction =
  transaction_details :: transaction_details
  credit_card_secure :: bool
  customer_details :: customer_details
  item_details :: "item_detail list"

text \<open>
  What \<^verbatim>\<open>fetch\<close> resolves to: the status, the body as text (\<^verbatim>\<open>.text()\<close>) and what
  \<^verbatim>\<open>.json()\<close> gives for that body (it rejects when the body is not JSON).
\<close>

record midtransResponse =
  gw_status :: nat
  gw_text :: string
  gw_json :: "json outcome"

definition ok :: "midtransResponse \<Rightarrow> bool" where
  "ok r = (200 \<le> gw_status r \<and> gw_status r \<le> 299)"

record request =
  http_method :: string
  authorization :: "string option"
  req_json :: "json outcome"

datatype body =
    NoBody
  | ErrorBody string
  | SessionBody "json option" string

record response =
  resp_status :: nat
  resp_headers :: "(string \<times> string) list"
  resp_body :: body

definition corsHeaders :: "(string \<times> string) list" where
  "corsHeaders =
     [(''Access-Control-Allow-Origin'', ''*''),
      (''Access-Control-Allow-Headers'', ''authorization, x-client-info, apikey, content-type'')]"

subsection \<open>The world and the state\<close>

text \<open>
  \<^item> \<open>envGet\<close> is \<^verbatim>\<open>Deno.env.get\<close>;
  \<^item> \<open>createClientError\<close> is the message \<^verbatim>\<open>createClient(url, key)\<close> throws, if it throws;
  \<^item> \<open>getUser\<close> is the identity service behind \<^verbatim>\<open>auth.getUser(token)\<close>;
  \<^item> \<open>premium_packages\<close> and \<open>profiles\<close> are the tables; a \<open>_error\<close> field is the error
    the store answers a query of that table with, if it cannot answer;
  \<^item> \<open>insert_error\<close> is the error the store answers the insert of a row into the current
    ledger with, if it refuses;
  \<^item> \<open>dateNow\<close> is \<^verbatim>\<open>Date.now()\<close>; \<open>fetch\<close> is the gateway.
\<close>

record world =
  envGet :: "string \<Rightarrow> string option"
  createClientError :: "string \<Rightarrow> string \<Rightarrow> string option"
  typeErrorMessage :: "string \<Rightarrow> string"
  getUser :: "string \<Rightarrow> auth_response outcome"
  premium_packages :: "premium_package list"
  premium_packages_error :: "string option"
  profiles :: "profile list"
  profiles_error :: "string option"
  insert_error :: "transaction \<Rightarrow> transaction list \<Rightarrow> string option"
  dateNow :: int
  fetch :: "string \<Rightarrow> snapTransaction \<Rightarrow> midtransResponse outcome"

datatype event =
    ConsoleLog "string list"
  | ConsoleError "string list"
  | AuthGetUser string
  | SelectPackage int
  | SelectProfile string
  | InsertTransaction transaction "string option"
  | MidtransFetch string snapTransaction

record state =
  transactions :: "transaction list"
  trace :: "event list"

definition emit :: "event \<Rightarrow> state \<Rightarrow> state" where
  "emit e s = s\<lparr>trace := trace s @ [e]\<rparr>"

definition showError :: "string option \<Rightarrow> string" where
  "showError e = (case e of None \<Rightarrow> ''null'' | Some m \<Rightarrow> m)"

subsection \<open>The stages of the \<^verbatim>\<open>try\<close> block\<close>

text \<open>\<^verbatim>\<open>!v\<close> and \<^verbatim>\<open>v || ""\<close> for \<^verbatim>\<open>v: string | undefined | null\<close>.\<close>

definition notString :: "string option \<Rightarrow> bool" where
  "notString v = (case v of None \<Rightarrow> True | Some x \<Rightarrow> x = [])"

definition orEmpty :: "string option \<Rightarrow> string" where
  "orEmpty v = (case v of None \<Rightarrow> [] | Some x \<Rightarrow> x)"

text \<open>Lines 20-35: the three required environment variables.\<close>

definition checkEnvironment :: "world \<Rightarrow> state \<Rightarrow> (string + string \<times> string \<times> string) \<times> state" where
  "checkEnvironment w s =
     (let midtransServerKey = envGet w ''MIDTRANS_SERVER_KEY'';
          supabaseUrl = envGet w ''SUPABASE_URL'';
          supabaseServiceKey = envGet w ''SUPABASE_SERVICE_ROLE_KEY''
      in if notString midtransServerKey then
           (Inl ''Midtrans server key not configured'',
            emit (ConsoleError [''MIDTRANS_SERVER_KEY environment variable is not set'']) s)
         else if notString supabaseUrl \<or> notString supabaseServiceKey then
           (Inl ''Supabase configuration not found'',
            emit (ConsoleError [''Supabase environment variables are not set'']) s)
         else
           (Inr (orEmpty midtransServerKey, orEmpty supabaseUrl, orEmpty supabaseServiceKey),
            emit (ConsoleLog [''Environment variables check passed'']) s))"

text \<open>Lines 37-58: the client with the anon key, the bearer token, the identity service.\<close>

definition getAuthenticatedUser :: "world \<Rightarrow> request \<Rightarrow> string \<Rightarrow> state \<Rightarrow> (string + user) \<times> state" where
  "getAuthenticatedUser w req supabaseUrl s =
     (case createClientError w supabaseUrl (orEmpty (envGet w ''SUPABASE_ANON_KEY'')) of
        Some m \<Rightarrow> (Inl m, s)
      | None \<Rightarrow>
          (let authHeader = authorization req in
           if notString authHeader then
             (Inl ''Authorization header required'',
              emit (ConsoleError [''No authorization header provided'']) s)
           else
             (let token = replace (orEmpty authHeader) ''Bearer '' [];
                  s1 = emit (ConsoleLog [''Token length:'', toString (int (length token)),
                                         ''Token prefix:'', substring0 token 20]) s;
                  s2 = emit (AuthGetUser token) s1
              in (case getUser w token of
                    Threw m \<Rightarrow> (Inl m, s2)
                  | Returned r \<Rightarrow>
                      (case (if auth_error r \<noteq> None then None else auth_user r) of
                         None \<Rightarrow>
                           (Inl ''User not authenticated'',
                            emit (ConsoleError [''Authentication error:'', showError (auth_error r)]) s2)
                       | Some u \<Rightarrow> (Inr u, s2))))))"

text \<open>
  Lines 60-70: the client with the service key, the body, the validation of \<^verbatim>\<open>paket\<close>:
  \<^verbatim>\<open>!paket || !['monthly', 'yearly'].includes(paket)\<close>, where \<^verbatim>\<open>includes\<close> compares with
  SameValueZero, so that only the two strings pass.
\<close>

definition validPaket :: "json option \<Rightarrow> string option" where
  "validPaket paket =
     (case paket of
        None \<Rightarrow> None
      | Some v \<Rightarrow>
          if falsy v then None
          else (case v of
                  JStr p \<Rightarrow> if p \<in> set [''monthly'', ''yearly''] then Some p else None
                | _ \<Rightarrow> None))"

definition readPaket :: "world \<Rightarrow> request \<Rightarrow> string \<Rightarrow> string \<Rightarrow> state \<Rightarrow> (string + string) \<times> state" where
  "readPaket w req supabaseUrl supabaseServiceKey s =
     (case createClientError w supabaseUrl supabaseServiceKey of
        Some m \<Rightarrow> (Inl m, s)
      | None \<Rightarrow>
          (case req_json req of
             Threw m \<Rightarrow> (Inl m, s)
           | Returned v \<Rightarrow>
               (case getProp (typeErrorMessage w) v ''paket'' of
                  Inl m \<Rightarrow> (Inl m, s)
                | Inr paket \<Rightarrow>
                    (case validPaket paket of
                       None \<Rightarrow> (Inl (''Invalid paket. Must be 'monthly' or 'yearly'' @ [CHR 0x27]), s)
                     | Some p \<Rightarrow> (Inr p, s)))))"

text \<open>
  Lines 73-81: the query of \<^verbatim>\<open>premium_packages\<close>. The two \<^verbatim>\<open>eq\<close> filters are SQL
  equalities, which a \<^verbatim>\<open>NULL\<close> never satisfies. The two \<^verbatim>\<open>order\<close> calls give
  \<^verbatim>\<open>ORDER BY is_popular DESC, created_at DESC\<close>; neither passes \<^verbatim>\<open>nullsFirst\<close>, so the
  store's default for a descending column applies, which puts \<^verbatim>\<open>NULL\<close> before every
  value, then \<^verbatim>\<open>true\<close>, then \<^verbatim>\<open>false\<close>. \<^verbatim>\<open>limit(1).maybeSingle()\<close> answers the first
  row, or no row and no error when there is none. A failed query answers no row and an
  error; the query builder does not throw.
\<close>

definition popularRank :: "bool option \<Rightarrow> nat" where
  "popularRank b = (case b of None \<Rightarrow> 0 | Some True \<Rightarrow> 1 | Some False \<Rightarrow> 2)"

definition orderKey :: "premium_package \<Rightarrow> nat \<times> int" where
  "orderKey r = (popularRank (is_popular r), - created_at r)"

definition matching :: "int \<Rightarrow> premium_package \<Rightarrow> bool" where
  "matching months r = (is_active r = Some True \<and> duration_months r = months)"

definition selectPackage :: "world \<Rightarrow> int \<Rightarrow> premium_package option \<times> string option" where
  "selectPackage w months =
     (case premium_packages_error w of
        Some e \<Rightarrow> (None, Some e)
      | None \<Rightarrow>
          (case sort_key orderKey (filter (matching months) (premium_packages w)) of
             [] \<Rightarrow> (None, None)
           | r # _ \<Rightarrow> (Some r, None)))"

text \<open>Lines 83-93: the quote, from the answer of the query or from the fallback.\<close>

definition fallbackAmount :: "string \<Rightarrow> int" where
  "fallbackAmount paket = (if paket = ''monthly'' then 40000 else 400000)"

definition fallbackName :: "string \<Rightarrow> string" where
  "fallbackName paket =
     ''Premium Membership '' @ (if paket = ''monthly'' then ''1 Bulan'' else ''1 Tahun'')"

text \<open>\<^verbatim>\<open>packageError || !packageData\<close>.\<close>

definition noPackage :: "premium_package option \<times> string option \<Rightarrow> bool" where
  "noPackage answer = (snd answer \<noteq> None \<or> fst answer = None)"

definition priceQuote :: "string \<Rightarrow> premium_package option \<times> string option \<Rightarrow> int \<times> string" where
  "priceQuote paket answer =
     (if noPackage answer then (fallbackAmount paket, fallbackName paket)
      else case fst answer of
             Some packageData \<Rightarrow> (price packageData, name packageData)
           | None \<Rightarrow> (fallbackAmount paket, fallbackName paket))"

definition resolve :: "world \<Rightarrow> string \<Rightarrow> int \<times> string" where
  "resolve w paket = priceQuote paket (selectPackage w (if paket = ''monthly'' then 1 else 12))"

definition getPricing :: "world \<Rightarrow> string \<Rightarrow> state \<Rightarrow> (int \<times> string) \<times> state" where
  "getPricing w paket s =
     (let months = (if paket = ''monthly'' then 1 else 12);
          s1 = emit (SelectPackage months) s;
          answer = selectPackage w months;
          s2 = (if noPackage answer
                then emit (ConsoleError [''Package fetch error:'', showError (snd answer)]) s1
                else s1);
          (amount, packageName) = priceQuote paket answer
      in ((amount, packageName),
          emit (ConsoleLog [''Using package: '' @ packageName @ '' with price: '' @ toString amount]) s2))"

text \<open>Lines 97-100: the order identifier.\<close>

definition generateOrderId :: "string \<Rightarrow> int \<Rightarrow> string" where
  "generateOrderId userId now =
     (let timestamp = toString now;
          userIdShort = substring0 userId 8
      in ''prem-'' @ userIdShort @ ''-'' @ timestamp)"

text \<open>
  Lines 102-107: the profile. \<^verbatim>\<open>single()\<close> answers the row when exactly one matches and
  no row otherwise; the handler reads \<^verbatim>\<open>data\<close> only, whatever the error.
\<close>

definition selectProfile :: "world \<Rightarrow> string \<Rightarrow> profile option" where
  "selectProfile w userId =
     (case profiles_error w of
        Some e \<Rightarrow> None
      | None \<Rightarrow>
          (case filter (\<lambda>p. profile_id p = userId) (profiles w) of
             [p] \<Rightarrow> Some p
           | _ \<Rightarrow> None))"

text \<open>\<^verbatim>\<open>profile?.nama || 'User'\<close>.\<close>

definition firstName :: "profile option \<Rightarrow> string" where
  "firstName prof =
     (case prof of
        None \<Rightarrow> ''User''
      | Some p \<Rightarrow> if nama p = [] then ''User'' else nama p)"

text \<open>Lines 109-123: the pending row. A refused insert leaves the ledger as it was.\<close>

definition createTransactionRecord :: "world \<Rightarrow> transaction \<Rightarrow> state \<Rightarrow> (string + unit) \<times> state" where
  "createTransactionRecord w t s =
     (let transactionError = insert_error w t (transactions s);
          s1 = emit (InsertTransaction t transactionError) s
      in case transactionError of
           Some e \<Rightarrow>
             (Inl ''Failed to create transaction record'',
              emit (ConsoleError [''Transaction creation error:'', e]) s1)
         | None \<Rightarrow> (Inr (), s1\<lparr>transactions := transactions s1 @ [t]\<rparr>))"

text \<open>
  Lines 125-173: the request to Midtrans and the answer to the caller. The event keeps the
  server key the \<^verbatim>\<open>Authorization\<close> header is built from.
\<close>

definition jsonHeaders :: "(string \<times> string) list" where
  "jsonHeaders = corsHeaders @ [(''Content-Type'', ''application/json'')]"

definition createSnapTransaction ::
    "world \<Rightarrow> string \<Rightarrow> snapTransaction \<Rightarrow> string \<Rightarrow> state \<Rightarrow> (string + response) \<times> state" where
  "createSnapTransaction w midtransServerKey snap orderId s =
     (let s1 = emit (ConsoleLog [''Creating Midtrans Snap transaction...'']) s;
          s2 = emit (MidtransFetch midtransServerKey snap) s1
      in (case fetch w midtransServerKey snap of
            Threw m \<Rightarrow> (Inl m, s2)
          | Returned r \<Rightarrow>
              if \<not> ok r then
                (let errorText = gw_text r;
                     s3 = emit (ConsoleError [''Midtrans API error status:'',
                                              toString (int (gw_status r))]) s2;
                     s4 = emit (ConsoleError [''Midtrans API error response:'', errorText]) s3
                 in (Inl (''Midtrans API Error ('' @ toString (int (gw_status r)) @ ''): ''
                            @ errorText), s4))
              else
                (case gw_json r of
                   Threw m \<Rightarrow> (Inl m, s2)
                 | Returned midtransData \<Rightarrow>
                     (case getProp (typeErrorMessage w) midtransData ''token'' of
                        Inl m \<Rightarrow> (Inl m, s2)
                      | Inr token \<Rightarrow>
                          (Inr \<lparr>resp_status = 200, resp_headers = jsonHeaders,
                                resp_body = SessionBody token orderId\<rparr>, s2)))))"

text \<open>Lines 95-144, between the quote and the request: what is built from the quote.\<close>

definition pendingTransaction :: "user \<Rightarrow> string \<Rightarrow> int \<Rightarrow> string \<Rightarrow> transaction" where
  "pendingTransaction u paket amount orderId =
     \<lparr>tx_user_id = id' u, tx_paket = paket, tx_amount = amount,
      tx_midtrans_order_id = orderId, tx_status = ''pending''\<rparr>"

definition snapRequest ::
    "user \<Rightarrow> string \<Rightarrow> int \<Rightarrow> string \<Rightarrow> string \<Rightarrow> profile option \<Rightarrow> snapTransaction" where
  "snapRequest u paket amount packageName orderId prof =
     \<lparr>transaction_details = \<lparr>order_id = orderId, gross_amount = amount\<rparr>,
      credit_card_secure = True,
      customer_details = \<lparr>first_name = firstName prof, customer_email = email u\<rparr>,
      item_details = [\<lparr>item_id = ''premium-'' @ paket, item_price = amount, quantity = 1,
                        item_name = packageName\<rparr>]\<rparr>"

text \<open>Lines 72-173: from the validated \<^verbatim>\<open>paket\<close> to the answer.\<close>

definition createPayment ::
    "world \<Rightarrow> string \<Rightarrow> user \<Rightarrow> string \<Rightarrow> state \<Rightarrow> (string + response) \<times> state" where
  "createPayment w midtransServerKey u paket s =
     (case getPricing w paket s of
        ((amount, packageName), s1) \<Rightarrow>
          (let orderId = generateOrderId (id' u) (dateNow w);
               s2 = emit (SelectProfile (id' u)) s1;
               prof = selectProfile w (id' u)
           in (case createTransactionRecord w (pendingTransaction u paket amount orderId) s2 of
                 (Inl m, s3) \<Rightarrow> (Inl m, s3)
               | (Inr _, s3) \<Rightarrow>
                   createSnapTransaction w midtransServerKey
                     (snapRequest u paket amount packageName orderId prof) orderId s3)))"

subsection \<open>The handler\<close>

definition tryBlock :: "world \<Rightarrow> request \<Rightarrow> state \<Rightarrow> (string + response) \<times> state" where
  "tryBlock w req s =
     (case checkEnvironment w s of
        (Inl m, s1) \<Rightarrow> (Inl m, s1)
      | (Inr (midtransServerKey, supabaseUrl, supabaseServiceKey), s1) \<Rightarrow>
          (case getAuthenticatedUser w req supabaseUrl s1 of
             (Inl m, s2) \<Rightarrow> (Inl m, s2)
           | (Inr u, s2) \<Rightarrow>
               (case readPaket w req supabaseUrl supabaseServiceKey s2 of
                  (Inl m, s3) \<Rightarrow> (Inl m, s3)
                | (Inr paket, s3) \<Rightarrow> createPayment w midtransServerKey u paket s3)))"

text \<open>Lines 175-183: \<^verbatim>\<open>error.message || 'Failed to create payment session'\<close>.\<close>

definition errorResponse :: "string \<Rightarrow> response" where
  "errorResponse message =
     \<lparr>resp_status = 500, resp_headers = jsonHeaders,
      resp_body = ErrorBody (if message = [] then ''Failed to create payment session''
                             else message)\<rparr>"

definition catchBlock :: "string \<Rightarrow> state \<Rightarrow> response \<times> state" where
  "catchBlock message s =
     (errorResponse message, emit (ConsoleError [''Payment creation error:'', message]) s)"

definition handler :: "world \<Rightarrow> request \<Rightarrow> state \<Rightarrow> response \<times> state" where
  "handler w req s =
     (if http_method req = ''OPTIONS'' then
        (\<lparr>resp_status = 200, resp_headers = corsHeaders, resp_body = NoBody\<rparr>, s)
      else
        (case tryBlock w req s of
           (Inr resp, s') \<Rightarrow> (resp, s')
         | (Inl message, s') \<Rightarrow> catchBlock message s'))"

text \<open>One request served on a ledger, with an empty trace to start from.\<close>

definition serve :: "world \<Rightarrow> request \<Rightarrow> transaction list \<Rightarrow> response \<times> state" where
  "serve w req ledger = handler w req \<lparr>transactions = ledger, trace = []\<rparr>"

subsection \<open>Observations on a run\<close>

text \<open>
  The events that are neither the profile lookup, nor a ledger write, nor a gateway call:
  console output, the call to the identity service and the package query.
\<close>

fun plain :: "event \<Rightarrow> bool" where
  "plain (SelectProfile uid) = False"
| "plain (InsertTransaction t e) = False"
| "plain (MidtransFetch k g) = False"
| "plain e = True"

text \<open>\<open>s'\<close> is \<open>s\<close> with the same ledger and some more plain events.\<close>

definition extends :: "state \<Rightarrow> state \<Rightarrow> bool" where
  "extends s s' =
     (transactions s' = transactions s \<and> take (length (trace s)) (trace s') = trace s
        \<and> list_all plain (drop (length (trace s)) (trace s')))"

text \<open>
  Whom lines 44-58 let through: nobody without an \<^verbatim>\<open>Authorization\<close> header, nobody
  when the identity service throws, answers an error or answers no user.
\<close>

definition verify :: "world \<Rightarrow> request \<Rightarrow> user option" where
  "verify w req =
     (if notString (authorization req) then None
      else case getUser w (replace (orEmpty (authorization req)) ''Bearer '' []) of
             Threw m \<Rightarrow> None
           | Returned r \<Rightarrow> if auth_error r \<noteq> None then None else auth_user r)"

text \<open>The row and the gateway request that the handler builds for a user and a plan.\<close>

definition pendingRow :: "world \<Rightarrow> user \<Rightarrow> string \<Rightarrow> transaction" where
  "pendingRow w u paket =
     pendingTransaction u paket (fst (resolve w paket)) (generateOrderId (id' u) (dateNow w))"

definition snapBody :: "world \<Rightarrow> user \<Rightarrow> string \<Rightarrow> snapTransaction" where
  "snapBody w u paket =
     snapRequest u paket (fst (resolve w paket)) (snd (resolve w paket))
       (generateOrderId (id' u) (dateNow w)) (selectProfile w (id' u))"

text \<open>The state right after the pending row was written, \<open>es\<close> being the events before.\<close>

definition recorded :: "world \<Rightarrow> user \<Rightarrow> string \<Rightarrow> transaction list \<Rightarrow> event list \<Rightarrow> state" where
  "recorded w u paket ledger es =
     \<lparr>transactions = ledger @ [pendingRow w u paket],
      trace = es @ [SelectProfile (id' u), InsertTransaction (pendingRow w u paket) None]\<rparr>"

subsection \<open>A sample deployment\<close>

text \<open>
  A configured deployment with no package and no profile stored, whose identity service
  knows one token and whose gateway is down. The theorems below are instantiated on it and
  on variations of it.
\<close>

definition sampleEnv :: "string \<Rightarrow> string option" where
  "sampleEnv key =
     (if key = ''MIDTRANS_SERVER_KEY'' then Some ''server-key''
      else if key = ''SUPABASE_URL'' then Some ''https://project.supabase.co''
      else if key = ''SUPABASE_SERVICE_ROLE_KEY'' then Some ''service-key''
      else if key = ''SUPABASE_ANON_KEY'' then Some ''anon-key''
      else None)"

definition sampleUser :: user where
  "sampleUser = \<lparr>id' = ''abc12345-6789-4def'', email = Some ''u@x.com''\<rparr>"

definition sampleGetUser :: "string \<Rightarrow> auth_response outcome" where
  "sampleGetUser token =
     (if token = ''valid-token'' then Returned \<lparr>auth_user = Some sampleUser, auth_error = None\<rparr>
      else Returned \<lparr>auth_user = None, auth_error = Some ''invalid JWT''\<rparr>)"

definition sampleRejection :: midtransResponse where
  "sampleRejection =
     \<lparr>gw_status = 503, gw_text = ''upstream connect error'', gw_json = Threw ''Unexpected token''\<rparr>"

definition sampleWorld :: world where
  "sampleWorld =
     \<lparr>envGet = sampleEnv,
      createClientError = (\<lambda>url key. None),
      typeErrorMessage = (\<lambda>p. ''Cannot read properties of null''),
      getUser = sampleGetUser,
      premium_packages = [],
      premium_packages_error = None,
      profiles = [],
      profiles_error = None,
      insert_error = (\<lambda>t ledger. None),
      dateNow = 1700000000000,
      fetch = (\<lambda>key snap. Returned sampleRejection)\<rparr>"

definition sampleRequest :: request where
  "sampleRequest =
     \<lparr>http_method = ''POST'', authorization = Some ''Bearer valid-token'',
      req_json = Returned (JObj [(''paket'', JStr ''monthly'')])\<rparr>"

text \<open>Packages to put in the store: three yearly ones and a monthly one that costs nothing.\<close>

definition annualPromo :: premium_package where
  "annualPromo =
     \<lparr>price = 350000, duration_months = 12, name = ''Annual Promo'',
      is_active = Some True, is_popular = Some False, created_at = 100\<rparr>"

definition annualPopular :: premium_package where
  "annualPopular =
     \<lparr>price = 300000, duration_months = 12, name = ''Annual Popular'',
      is_active = Some True, is_popular = Some True, created_at = 50\<rparr>"

definition annualUnflagged :: premium_package where
  "annualUnflagged =
     \<lparr>price = 390000, duration_months = 12, name = ''Annual Draft'',
      is_active = Some True, is_popular = None, created_at = 10\<rparr>"

definition freeMonth :: premium_package where
  "freeMonth =
     \<lparr>price = 0, duration_months = 1, name = [],
      is_active = Some True, is_popular = Some False, created_at = 100\<rparr>"

text \<open>
  Variations: a store that refuses the insert, a token the identity service rejects, a
  request for the yearly plan, and stores with packages.
\<close>

definition refusingWorld :: world where
  "refusingWorld = sampleWorld\<lparr>insert_error := (\<lambda>t ledger. Some ''duplicate key value'')\<rparr>"

definition expiredRequest :: request where
  "expiredRequest = sampleRequest\<lparr>authorization := Some ''Bearer expired-token''\<rparr>"

definition promoWorld :: world where
  "promoWorld = sampleWorld\<lparr>premium_packages := [annualPromo, annualPopular]\<rparr>"

definition yearlyRequest :: request where
  "yearlyRequest = sampleRequest\<lparr>req_json := Returned (JObj [(''paket'', JStr ''yearly'')])\<rparr>"

definition unflaggedWorld :: world where
  "unflaggedWorld = sampleWorld\<lparr>premium_packages := [annualPopular, annualUnflagged]\<rparr>"

definition freeWorld :: world where
  "freeWorld = sampleWorld\<lparr>premium_packages := [freeMonth]\<rparr>"

section \<open>Properties\<close>

subsection \<open>Decimal strings\<close>

lemma below_ten: "d < 10 \<Longrightarrow> d \<in> {0, 1, 2, 3, 4, 5, 6, 7, 8, (9::nat)}"
  by auto

lemma digit_val_digit_char: "d < 10 \<Longrightarrow> digit_val (digit_char d) = d"
  by (drule below_ten) (auto simp: digit_val_def digit_char_def decimalDigits_def)

lemma digit_char_not_minus: "d < 10 \<Longrightarrow> digit_char d \<noteq> CHR ''-''"
  by (drule below_ten) (auto simp: digit_char_def decimalDigits_def)

lemma parseDigits_snoc: "parseDigits (xs @ [c]) = 10 * parseDigits xs + digit_val c"
  by (simp add: parseDigits_def)

lemma digits_lt10: "n < 10 \<Longrightarrow> digits n = [digit_char n]"
  by (subst digits.simps) simp

lemma digits_ge10: "\<not> n < 10 \<Longrightarrow> digits n = digits (n div 10) @ [digit_char (n mod 10)]"
  by (subst digits.simps) simp

lemmas toString_eval = toString_def digits_lt10 digits_ge10 digit_char_def decimalDigits_def

lemma parseDigits_digits: "parseDigits (digits n) = n"
proof (induction n rule: digits.induct)
  case (1 n)
  show ?case
  proof (cases "n < 10")
    case True
    then show ?thesis
      by (simp add: digits_lt10 parseDigits_def digit_val_digit_char)
  next
    case False
    with 1 have "parseDigits (digits (n div 10)) = n div 10"
      by simp
    with False show ?thesis
      by (simp add: digits_ge10 parseDigits_snoc digit_val_digit_char)
  qed
qed

lemma digits_first: "\<exists>c cs. digits n = c # cs \<and> c \<noteq> CHR ''-''"
proof (induction n rule: digits.induct)
  case (1 n)
  show ?case
  proof (cases "n < 10")
    case True
    then show ?thesis
      by (simp add: digits_lt10 digit_char_not_minus)
  next
    case False
    with 1 obtain c cs where "digits (n div 10) = c # cs" "c \<noteq> CHR ''-''"
      by blast
    with False show ?thesis
      by (simp add: digits_ge10)
  qed
qed

lemma parseInt_toString: "parseInt (toString i) = i"
proof -
  obtain c cs where d: "digits (nat i) = c # cs" "c \<noteq> CHR ''-''"
    using digits_first by blast
  have "parseDigits (c # cs) = nat i"
    using parseDigits_digits [of "nat i"] d by simp
  with d show ?thesis
    by (simp add: parseInt_def toString_def parseDigits_digits)
qed

lemma toString_inject: "toString a = toString b \<longleftrightarrow> a = b"
  by (metis parseInt_toString)

subsection \<open>The stages only add events\<close>

lemma extends_refl: "extends s s"
  by (simp add: extends_def)

lemma extends_emit: "plain e \<Longrightarrow> extends s s' \<Longrightarrow> extends s (emit e s')"
  by (auto simp: extends_def emit_def list_all_iff dest!: arg_cong [where f = length])

lemma extendsI: "list_all plain es \<Longrightarrow> extends s (s\<lparr>trace := trace s @ es\<rparr>)"
  by (simp add: extends_def)

lemma extendsE:
  assumes "extends s s'"
  obtains es where "s' = s\<lparr>trace := trace s @ es\<rparr>" "list_all plain es"
proof
  let ?es = "drop (length (trace s)) (trace s')"
  have "trace s' = take (length (trace s)) (trace s') @ ?es"
    by simp
  also have "\<dots> = trace s @ ?es"
    using assms by (simp add: extends_def)
  finally have "trace s' = trace s @ ?es" .
  moreover have "transactions s' = transactions s"
    using assms by (simp add: extends_def)
  ultimately show "s' = s\<lparr>trace := trace s @ ?es\<rparr>"
    by (cases s, cases s') simp
  show "list_all plain ?es"
    using assms by (simp add: extends_def)
qed

lemma extends_trans:
  assumes "extends s s'" and "extends s' s''"
  shows "extends s s''"
proof -
  from assms(1) obtain es where 1: "s' = s\<lparr>trace := trace s @ es\<rparr>" "list_all plain es"
    by (rule extendsE)
  from assms(2) obtain es' where 2: "s'' = s'\<lparr>trace := trace s' @ es'\<rparr>" "list_all plain es'"
    by (rule extendsE)
  from 1 2 have "s'' = s\<lparr>trace := trace s @ (es @ es')\<rparr>" "list_all plain (es @ es')"
    by simp_all
  then show ?thesis
    using extendsI by metis
qed

lemma checkEnvironment_extends: "extends s (snd (checkEnvironment w s))"
  by (simp add: checkEnvironment_def Let_def extends_emit extends_refl)

lemma getAuthenticatedUser_extends: "extends s (snd (getAuthenticatedUser w req url s))"
  by (simp add: getAuthenticatedUser_def Let_def extends_emit extends_refl
           split: option.splits outcome.splits)

lemma getAuthenticatedUser_verify:
  "fst (getAuthenticatedUser w req url s) = Inr u \<Longrightarrow> verify w req = Some u"
  by (auto simp: getAuthenticatedUser_def verify_def Let_def
           split: option.splits outcome.splits if_splits)

lemma readPaket_state: "snd (readPaket w req url key s) = s"
  by (simp add: readPaket_def split: option.splits outcome.splits sum.splits)

lemma readPaket_valid:
  "fst (readPaket w req url key s) = Inr p \<Longrightarrow> p = ''monthly'' \<or> p = ''yearly''"
  by (auto simp: readPaket_def validPaket_def
           split: option.splits outcome.splits sum.splits json.splits if_splits)

lemma getPricing_extends: "extends s (snd (getPricing w paket s))"
  by (simp add: getPricing_def Let_def extends_emit extends_refl split: prod.splits)

lemma getPricing_resolve: "fst (getPricing w paket s) = resolve w paket"
  by (simp add: getPricing_def resolve_def Let_def split: prod.splits)

lemma tryBlock_cases:
  obtains (aborted) m s' where "tryBlock w req s = (Inl m, s')" "extends s s'"
  | (priced) k u paket s' where
      "tryBlock w req s = createPayment w k u paket s'" "extends s s'"
      "paket = ''monthly'' \<or> paket = ''yearly''" "verify w req = Some u"
proof (cases "checkEnvironment w s")
  case env: (Pair r1 s1)
  have e1: "extends s s1"
    using checkEnvironment_extends [of s w] env by simp
  show ?thesis
  proof (cases r1)
    case (Inl m)
    with env e1 show ?thesis
      by (intro aborted [of m s1]) (simp_all add: tryBlock_def)
  next
    case (Inr keys)
    obtain k url key where keys: "keys = (k, url, key)"
      by (cases keys) auto
    show ?thesis
    proof (cases "getAuthenticatedUser w req url s1")
      case auth: (Pair r2 s2)
      have e2: "extends s s2"
        using getAuthenticatedUser_extends [of s1 w req url] auth e1
        by (auto intro: extends_trans)
      show ?thesis
      proof (cases r2)
        case (Inl m)
        with env Inr keys auth e2 show ?thesis
          by (intro aborted [of m s2]) (simp_all add: tryBlock_def)
      next
        case u: (Inr u)
        have v: "verify w req = Some u"
          using getAuthenticatedUser_verify [of w req url s1 u] auth u by simp
        show ?thesis
        proof (cases "readPaket w req url key s2")
          case rp: (Pair r3 s3)
          have s3: "s3 = s2"
            using readPaket_state [of w req url key s2] rp by simp
          show ?thesis
          proof (cases r3)
            case (Inl m)
            with env Inr keys auth u rp s3 e2 show ?thesis
              by (intro aborted [of m s2]) (simp_all add: tryBlock_def)
          next
            case p: (Inr p)
            have "p = ''monthly'' \<or> p = ''yearly''"
              using readPaket_valid [of w req url key s2 p] rp p by simp
            with env Inr keys auth u rp s3 p e2 v show ?thesis
              by (intro priced [of k u p s2]) (simp_all add: tryBlock_def)
          qed
        qed
      qed
    qed
  qed
qed

lemma createPayment_unfold:
  "createPayment w k u paket s =
     (case createTransactionRecord w (pendingRow w u paket)
             (emit (SelectProfile (id' u)) (snd (getPricing w paket s))) of
        (Inl m, s3) \<Rightarrow> (Inl m, s3)
      | (Inr x, s3) \<Rightarrow>
          createSnapTransaction w k (snapBody w u paket) (generateOrderId (id' u) (dateNow w)) s3)"
proof -
  obtain a b s1 where g: "getPricing w paket s = ((a, b), s1)"
    by (metis prod.exhaust)
  then have r: "resolve w paket = (a, b)"
    using getPricing_resolve [of w paket s] by simp
  show ?thesis
    unfolding createPayment_def pendingRow_def snapBody_def r g fst_conv snd_conv
    by (simp add: Let_def)
qed

lemma createSnapTransaction_trace:
  obtains es where
    "snd (createSnapTransaction w k g orderId s) =
       s\<lparr>trace := trace s @ [ConsoleLog [''Creating Midtrans Snap transaction...''],
                                 MidtransFetch k g] @ es\<rparr>"
    "list_all plain es"
proof (cases "fetch w k g")
  case (Threw m)
  then show ?thesis
    by (intro that [of "[]"]) (simp_all add: createSnapTransaction_def Let_def emit_def)
next
  case (Returned r)
  show ?thesis
  proof (cases "ok r")
    case False
    with Returned show ?thesis
      by (intro that [of "[ConsoleError [''Midtrans API error status:'', toString (int (gw_status r))],
                           ConsoleError [''Midtrans API error response:'', gw_text r]]"])
         (simp_all add: createSnapTransaction_def Let_def emit_def)
  next
    case True
    with Returned show ?thesis
      by (intro that [of "[]"])
         (simp_all add: createSnapTransaction_def Let_def emit_def
                 split: outcome.splits sum.splits)
  qed
qed

lemma createSnapTransaction_threw:
  "fetch w k g = Threw m \<Longrightarrow> fst (createSnapTransaction w k g orderId s) = Inl m"
  by (simp add: createSnapTransaction_def Let_def)


lemma createPayment_refused:
  assumes "insert_error w (pendingRow w u paket) (transactions s) = Some e"
  obtains es where
    "createPayment w k u paket s =
       (Inl ''Failed to create transaction record'',
        s\<lparr>trace := trace s @ es @
             [SelectProfile (id' u), InsertTransaction (pendingRow w u paket) (Some e),
              ConsoleError [''Transaction creation error:'', e]]\<rparr>)"
    "list_all plain es"
proof -
  obtain es where es: "snd (getPricing w paket s) = s\<lparr>trace := trace s @ es\<rparr>" "list_all plain es"
    using getPricing_extends [of s w paket] by (rule extendsE)
  with assms show ?thesis
    by (intro that [of es])
       (simp_all add: createPayment_unfold createTransactionRecord_def Let_def emit_def)
qed

lemma createPayment_called:
  assumes "insert_error w (pendingRow w u paket) (transactions s) = None"
  obtains es where
    "createPayment w k u paket s =
       createSnapTransaction w k (snapBody w u paket) (generateOrderId (id' u) (dateNow w))
         (recorded w u paket (transactions s) (trace s @ es))"
    "list_all plain es"
proof -
  obtain es where es: "snd (getPricing w paket s) = s\<lparr>trace := trace s @ es\<rparr>" "list_all plain es"
    using getPricing_extends [of s w paket] by (rule extendsE)
  with assms show ?thesis
    by (intro that [of es]; cases s)
       (simp_all add: createPayment_unfold createTransactionRecord_def recorded_def Let_def emit_def)
qed

subsection \<open>The runs of the handler\<close>

text \<open>
  Every run is of one of four kinds: the preflight; a run that stops before the profile
  lookup, with plain events only; a run whose insert is refused; a run whose insert succeeds
  and that goes on to the gateway.
\<close>

lemma plain_no_insert: "list_all plain es \<Longrightarrow> InsertTransaction t e \<notin> set es"
  by (auto simp: list_all_iff)

lemma plain_no_fetch: "list_all plain es \<Longrightarrow> MidtransFetch k g \<notin> set es"
  by (auto simp: list_all_iff)


lemma serve_cases:
  obtains
    (preflight) "http_method req = ''OPTIONS''"
      "serve w req ledger =
         (\<lparr>resp_status = 200, resp_headers = corsHeaders, resp_body = NoBody\<rparr>,
          \<lparr>transactions = ledger, trace = []\<rparr>)"
  | (aborted) m es where "http_method req \<noteq> ''OPTIONS''"
      "serve w req ledger = (errorResponse m, \<lparr>transactions = ledger, trace = es\<rparr>)"
      "list_all plain es"
  | (refused) u paket e es where "http_method req \<noteq> ''OPTIONS''"
      "verify w req = Some u" "paket = ''monthly'' \<or> paket = ''yearly''"
      "insert_error w (pendingRow w u paket) ledger = Some e"
      "serve w req ledger =
         (errorResponse ''Failed to create transaction record'',
          \<lparr>transactions = ledger,
           trace = es @ [SelectProfile (id' u), InsertTransaction (pendingRow w u paket) (Some e),
                         ConsoleError [''Transaction creation error:'', e],
                         ConsoleError [''Payment creation error:'',
                                       ''Failed to create transaction record'']]\<rparr>)"
      "list_all plain es"
  | (called) u paket k es where "http_method req \<noteq> ''OPTIONS''"
      "verify w req = Some u" "paket = ''monthly'' \<or> paket = ''yearly''"
      "insert_error w (pendingRow w u paket) ledger = None"
      "serve w req ledger =
         (case createSnapTransaction w k (snapBody w u paket)
                 (generateOrderId (id' u) (dateNow w)) (recorded w u paket ledger es) of
            (Inl m, s') \<Rightarrow> catchBlock m s'
          | (Inr resp, s') \<Rightarrow> (resp, s'))"
      "list_all plain es"
proof (cases "http_method req = ''OPTIONS''")
  case True
  then show ?thesis
    by (intro preflight) (simp_all add: serve_def handler_def)
next
  case post: False
  let ?s = "\<lparr>transactions = ledger, trace = []\<rparr>"
  show ?thesis
  proof (cases rule: tryBlock_cases [of w req ?s])
    case (aborted m s')
    from aborted(2) obtain es where es: "s' = ?s\<lparr>trace := trace ?s @ es\<rparr>" "list_all plain es"
      by (rule extendsE)
    let ?es = "es @ [ConsoleError [''Payment creation error:'', m]]"
    from post aborted(1) es
    have "serve w req ledger = (errorResponse m, \<lparr>transactions = ledger, trace = ?es\<rparr>)"
      by (simp add: serve_def handler_def catchBlock_def emit_def)
    moreover have "list_all plain ?es"
      using es by simp
    ultimately show ?thesis
      using post by (intro that(2) [of m ?es])
  next
    case (priced k u paket s')
    from priced(2) obtain es where es: "s' = ?s\<lparr>trace := trace ?s @ es\<rparr>" "list_all plain es"
      by (rule extendsE)
    then have s': "transactions s' = ledger" "trace s' = es"
      by simp_all
    show ?thesis
    proof (cases "insert_error w (pendingRow w u paket) ledger")
      case (Some e)
      then have "insert_error w (pendingRow w u paket) (transactions s') = Some e"
        using s' by simp
      then obtain es1 where cp: "createPayment w k u paket s' =
          (Inl ''Failed to create transaction record'',
           s'\<lparr>trace := trace s' @ es1 @
             [SelectProfile (id' u), InsertTransaction (pendingRow w u paket) (Some e),
              ConsoleError [''Transaction creation error:'', e]]\<rparr>)"
          "list_all plain es1"
        by (rule createPayment_refused)
      have "serve w req ledger =
         (errorResponse ''Failed to create transaction record'',
          \<lparr>transactions = ledger,
           trace = (es @ es1) @ [SelectProfile (id' u),
                         InsertTransaction (pendingRow w u paket) (Some e),
                         ConsoleError [''Transaction creation error:'', e],
                         ConsoleError [''Payment creation error:'',
                                       ''Failed to create transaction record'']]\<rparr>)"
        using post priced(1) cp(1) es(1)
        by (simp add: serve_def handler_def catchBlock_def emit_def)
      moreover have "list_all plain (es @ es1)"
        using es cp by simp
      ultimately show ?thesis
        using post priced Some by (intro that(3) [of u paket e "es @ es1"])
    next
      case None
      then have "insert_error w (pendingRow w u paket) (transactions s') = None"
        using s' by simp
      then obtain es1 where cp:
        "createPayment w k u paket s' =
           createSnapTransaction w k (snapBody w u paket) (generateOrderId (id' u) (dateNow w))
             (recorded w u paket (transactions s') (trace s' @ es1))"
        "list_all plain es1"
        by (rule createPayment_called)
      have "serve w req ledger =
         (case createSnapTransaction w k (snapBody w u paket)
                 (generateOrderId (id' u) (dateNow w)) (recorded w u paket ledger (es @ es1)) of
            (Inl m, s') \<Rightarrow> catchBlock m s'
          | (Inr resp, s') \<Rightarrow> (resp, s'))"
        using post priced(1) cp(1) s'
        by (simp add: serve_def handler_def split: prod.splits sum.splits)
      moreover have "list_all plain (es @ es1)"
        using es cp by simp
      ultimately show ?thesis
        using post priced None by (intro that(4) [of u paket k "es @ es1"])
    qed
  qed
qed

text \<open>The trace and the ledger of a run that reached the gateway.\<close>

lemma called_state:
  assumes "serve w req ledger =
         (case createSnapTransaction w k g orderId (recorded w u paket ledger es) of
            (Inl m, s') \<Rightarrow> catchBlock m s'
          | (Inr resp, s') \<Rightarrow> (resp, s'))"
  obtains es' where
    "snd (serve w req ledger) =
       \<lparr>transactions = ledger @ [pendingRow w u paket],
        trace = es @ [SelectProfile (id' u), InsertTransaction (pendingRow w u paket) None,
                      ConsoleLog [''Creating Midtrans Snap transaction...''],
                      MidtransFetch k g] @ es'\<rparr>"
    "list_all plain es'"
proof -
  let ?r = "createSnapTransaction w k g orderId (recorded w u paket ledger es)"
  obtain es1 where es1: "snd ?r =
      (recorded w u paket ledger es)\<lparr>trace := trace (recorded w u paket ledger es) @
         [ConsoleLog [''Creating Midtrans Snap transaction...''], MidtransFetch k g] @ es1\<rparr>"
      "list_all plain es1"
    by (rule createSnapTransaction_trace)
  obtain a s4 where r: "?r = (a, s4)"
    by (cases ?r)
  show ?thesis
  proof (cases a)
    case (Inl m)
    with assms r es1 show ?thesis
      by (intro that [of "es1 @ [ConsoleError [''Payment creation error:'', m]]"])
         (simp_all add: catchBlock_def emit_def recorded_def)
  next
    case (Inr resp)
    with assms r es1 show ?thesis
      by (intro that [of es1]) (simp_all add: recorded_def)
  qed
qed

lemma reached_gateway:
  assumes "MidtransFetch k g \<in> set (trace (snd (serve w req ledger)))"
  obtains u paket es es' where
    "verify w req = Some u" "paket = ''monthly'' \<or> paket = ''yearly''"
    "g = snapBody w u paket"
    "insert_error w (pendingRow w u paket) ledger = None"
    "serve w req ledger =
       (case createSnapTransaction w k g (generateOrderId (id' u) (dateNow w))
               (recorded w u paket ledger es) of
          (Inl m, s') \<Rightarrow> catchBlock m s'
        | (Inr resp, s') \<Rightarrow> (resp, s'))"
    "snd (serve w req ledger) =
       \<lparr>transactions = ledger @ [pendingRow w u paket],
        trace = es @ [SelectProfile (id' u), InsertTransaction (pendingRow w u paket) None,
                      ConsoleLog [''Creating Midtrans Snap transaction...''],
                      MidtransFetch k g] @ es'\<rparr>"
    "list_all plain es" "list_all plain es'"
proof (cases rule: serve_cases [of req w ledger])
  case preflight
  with assms show ?thesis by simp
next
  case (aborted m es)
  with assms show ?thesis by (simp add: plain_no_fetch)
next
  case (refused u paket e es)
  with assms show ?thesis by (simp add: plain_no_fetch)
next
  case (called u paket k0 es)
  from called(5) obtain es' where st:
    "snd (serve w req ledger) =
       \<lparr>transactions = ledger @ [pendingRow w u paket],
        trace = es @ [SelectProfile (id' u), InsertTransaction (pendingRow w u paket) None,
                      ConsoleLog [''Creating Midtrans Snap transaction...''],
                      MidtransFetch k0 (snapBody w u paket)] @ es'\<rparr>"
    "list_all plain es'"
    by (rule called_state)
  with assms called(6) have kg: "k = k0" "g = snapBody w u paket"
    by (auto simp: plain_no_fetch)
  with called st show ?thesis
    by (intro that [of u paket es es']) simp_all
qed

lemma takeWhile_before: "x \<notin> set xs \<Longrightarrow> takeWhile (\<lambda>e. e \<noteq> x) (xs @ x # ys) = xs"
  by (induction xs) auto

lemma gateway_failure_response:
  assumes "serve w req ledger =
       (case createSnapTransaction w k g orderId s of
          (Inl m, s') \<Rightarrow> catchBlock m s'
        | (Inr resp, s') \<Rightarrow> (resp, s'))"
    and "(\<exists>m. fetch w k g = Threw m) \<or> (\<exists>r. fetch w k g = Returned r \<and> \<not> ok r)"
  shows "\<exists>m. fst (serve w req ledger) = errorResponse m"
  using assms
  by (auto simp: createSnapTransaction_def catchBlock_def Let_def)

subsection \<open>The sample deployment, evaluated\<close>

lemmas handler_eval =
  serve_def handler_def tryBlock_def checkEnvironment_def getAuthenticatedUser_def
  readPaket_def createPayment_def getPricing_def createTransactionRecord_def
  createSnapTransaction_def catchBlock_def errorResponse_def emit_def notString_def
  orEmpty_def getProp_def validPaket_def selectPackage_def resolve_def priceQuote_def noPackage_def
  fallbackAmount_def fallbackName_def generateOrderId_def substring0_def selectProfile_def
  firstName_def pendingTransaction_def snapRequest_def ok_def showError_def matching_def
  orderKey_def popularRank_def Let_def toString_eval

lemmas sample_eval =
  sampleWorld_def sampleRequest_def sampleEnv_def sampleUser_def sampleGetUser_def
  sampleRejection_def


lemma serve_sample_state:
  "snd (serve sampleWorld sampleRequest []) =
     \<lparr>transactions = [pendingRow sampleWorld sampleUser ''monthly''],
      trace =
        [ConsoleLog [''Environment variables check passed''],
         ConsoleLog [''Token length:'', ''11'', ''Token prefix:'', ''valid-token''],
         AuthGetUser ''valid-token'',
         SelectPackage 1,
         ConsoleError [''Package fetch error:'', ''null''],
         ConsoleLog [''Using package: Premium Membership 1 Bulan with price: 40000''],
         SelectProfile ''abc12345-6789-4def'',
         InsertTransaction (pendingRow sampleWorld sampleUser ''monthly'') None,
         ConsoleLog [''Creating Midtrans Snap transaction...''],
         MidtransFetch ''server-key'' (snapBody sampleWorld sampleUser ''monthly''),
         ConsoleError [''Midtrans API error status:'', ''503''],
         ConsoleError [''Midtrans API error response:'', ''upstream connect error''],
         ConsoleError [''Payment creation error:'',
                       ''Midtrans API Error (503): upstream connect error'']]\<rparr>"
  by (simp add: handler_eval sample_eval pendingRow_def snapBody_def)

lemmas package_eval =
  promoWorld_def unflaggedWorld_def freeWorld_def yearlyRequest_def
  annualPromo_def annualPopular_def annualUnflagged_def freeMonth_def

subsection \<open>Identity\<close>

lemma verify_None:
  assumes "authorization req = None \<or> authorization req = Some []
           \<or> (\<exists>m. getUser w (replace (orEmpty (authorization req)) ''Bearer '' []) = Threw m)
           \<or> (\<exists>r. getUser w (replace (orEmpty (authorization req)) ''Bearer '' []) = Returned r
                   \<and> (auth_error r \<noteq> None \<or> auth_user r = None))"
  shows "verify w req = None"
  using assms by (auto simp: verify_def notString_def split: option.splits)

text \<open>
  C5. A request without an \<^verbatim>\<open>Authorization\<close> header (or with an empty one), or whose
  token the identity service rejects (it throws, answers an error, or answers no user),
  leaves the ledger as it was; the run contains no insert into the ledger, attempted or
  completed, and no request to the gateway; and, unless the request is the preflight, the
  response is the failure response with status 500.
\<close>

theorem unauthenticated_request_touches_nothing:
  assumes "authorization req = None \<or> authorization req = Some []
           \<or> (\<exists>m. getUser w (replace (orEmpty (authorization req)) ''Bearer '' []) = Threw m)
           \<or> (\<exists>r. getUser w (replace (orEmpty (authorization req)) ''Bearer '' []) = Returned r
                   \<and> (auth_error r \<noteq> None \<or> auth_user r = None))"
  shows "transactions (snd (serve w req ledger)) = ledger
         \<and> (\<forall>t e. InsertTransaction t e \<notin> set (trace (snd (serve w req ledger))))
         \<and> (\<forall>k g. MidtransFetch k g \<notin> set (trace (snd (serve w req ledger))))
         \<and> (http_method req \<noteq> ''OPTIONS'' \<longrightarrow>
              resp_status (fst (serve w req ledger)) = 500
              \<and> (\<exists>m. resp_body (fst (serve w req ledger)) = ErrorBody m))"
proof -
  have v: "verify w req = None"
    using assms by (rule verify_None)
  show ?thesis
  proof (cases rule: serve_cases [of req w ledger])
    case preflight
    then show ?thesis by simp
  next
    case (aborted m es)
    then show ?thesis
      by (simp add: plain_no_insert plain_no_fetch errorResponse_def)
  next
    case (refused u paket e es)
    with v show ?thesis by simp
  next
    case (called u paket k es)
    with v show ?thesis by simp
  qed
qed

theorem unauthenticated_request_touches_nothing_witness:
  "getUser sampleWorld ''expired-token'' =
     Returned \<lparr>auth_user = None, auth_error = Some ''invalid JWT''\<rparr>
   \<and> transactions (snd (serve sampleWorld expiredRequest [])) = []
   \<and> (\<forall>t e. InsertTransaction t e \<notin> set (trace (snd (serve sampleWorld expiredRequest []))))
   \<and> (\<forall>k g. MidtransFetch k g \<notin> set (trace (snd (serve sampleWorld expiredRequest []))))
   \<and> resp_status (fst (serve sampleWorld expiredRequest [])) = 500
   \<and> resp_body (fst (serve sampleWorld expiredRequest [])) = ErrorBody ''User not authenticated''"
proof -
  have g: "getUser sampleWorld (replace (orEmpty (authorization expiredRequest)) ''Bearer '' []) =
      Returned \<lparr>auth_user = None, auth_error = Some ''invalid JWT''\<rparr>"
    by (simp add: sample_eval expiredRequest_def orEmpty_def)
  then have h: "authorization expiredRequest = None \<or> authorization expiredRequest = Some []
      \<or> (\<exists>m. getUser sampleWorld (replace (orEmpty (authorization expiredRequest)) ''Bearer '' [])
               = Threw m)
      \<or> (\<exists>r. getUser sampleWorld (replace (orEmpty (authorization expiredRequest)) ''Bearer '' [])
               = Returned r \<and> (auth_error r \<noteq> None \<or> auth_user r = None))"
    by simp
  have m: "http_method expiredRequest \<noteq> ''OPTIONS''"
    by (simp add: expiredRequest_def sample_eval)
  have b: "resp_body (fst (serve sampleWorld expiredRequest [])) = ErrorBody ''User not authenticated''"
      "getUser sampleWorld ''expired-token'' =
         Returned \<lparr>auth_user = None, auth_error = Some ''invalid JWT''\<rparr>"
    by (simp_all add: handler_eval sample_eval expiredRequest_def)
  from unauthenticated_request_touches_nothing [OF h, of "[]"] m b
  show ?thesis by simp
qed

subsection \<open>The quote\<close>

lemma selectPackage_noPackage:
  "noPackage (selectPackage w months) \<longleftrightarrow>
     premium_packages_error w \<noteq> None \<or> filter (matching months) (premium_packages w) = []"
  by (auto simp: noPackage_def selectPackage_def split: option.splits list.splits
           dest!: arg_cong [where f = set])

lemma resolve_fallback:
  "noPackage (selectPackage w (if paket = ''monthly'' then 1 else 12)) \<Longrightarrow>
   resolve w paket = (fallbackAmount paket, fallbackName paket)"
  by (simp add: resolve_def priceQuote_def)

text \<open>
  C9. For a monthly request for which the package query finds nothing, because it fails or
  because no active one-month package is stored, the quote is exactly 40000 and
  ``Premium Membership 1 Bulan''.
\<close>

theorem fallback_monthly_quote:
  assumes "premium_packages_error w \<noteq> None \<or> filter (matching 1) (premium_packages w) = []"
  shows "resolve w ''monthly'' = (40000, ''Premium Membership 1 Bulan'')
         \<and> fst (getPricing w ''monthly'' s) = (40000, ''Premium Membership 1 Bulan'')"
  using assms
  by (simp add: getPricing_resolve resolve_fallback selectPackage_noPackage
        fallbackAmount_def fallbackName_def)

theorem fallback_monthly_quote_witness:
  "resolve sampleWorld ''monthly'' = (40000, ''Premium Membership 1 Bulan'')
   \<and> resolve (sampleWorld\<lparr>premium_packages := [freeMonth],
                              premium_packages_error := Some ''timeout''\<rparr>) ''monthly''
       = (40000, ''Premium Membership 1 Bulan'')"
  using fallback_monthly_quote [of sampleWorld]
    fallback_monthly_quote [of "sampleWorld\<lparr>premium_packages := [freeMonth],
                                              premium_packages_error := Some ''timeout''\<rparr>"]
  by (simp add: sampleWorld_def)

text \<open>
  C3, as the code has it. When the package query finds nothing for either plan, the monthly
  fallback amount is 40000 and the yearly fallback amount is 400000, which is 10 times the
  monthly one.
\<close>

theorem fallback_yearly_is_ten_monthly:
  assumes "premium_packages_error w \<noteq> None \<or> filter (matching 1) (premium_packages w) = []"
    and "premium_packages_error w \<noteq> None \<or> filter (matching 12) (premium_packages w) = []"
  shows "fst (resolve w ''monthly'') = 40000 \<and> fst (resolve w ''yearly'') = 400000
         \<and> fst (resolve w ''yearly'') = 10 * fst (resolve w ''monthly'')"
  using assms
  by (simp add: resolve_fallback selectPackage_noPackage fallbackAmount_def)

theorem fallback_yearly_is_ten_monthly_witness:
  "fst (resolve sampleWorld ''monthly'') = 40000 \<and> fst (resolve sampleWorld ''yearly'') = 400000"
  using fallback_yearly_is_ten_monthly [of sampleWorld]
  by (simp add: sampleWorld_def)

text \<open>
  C3, as stated, fails: with no package stored, the yearly fallback amount is neither 12
  times the monthly one nor 480000.
\<close>

theorem fallback_yearly_not_twelve_monthly:
  "fst (resolve sampleWorld ''yearly'') \<noteq> 12 * fst (resolve sampleWorld ''monthly'')
   \<and> fst (resolve sampleWorld ''yearly'') \<noteq> 480000"
  by (simp add: resolve_def priceQuote_def noPackage_def selectPackage_def sampleWorld_def
        fallbackAmount_def)

lemma sort_key_first:
  assumes "sort_key f xs = y # ys"
  shows "y \<in> set xs \<and> (\<forall>x\<in>set xs. f y \<le> f x)"
proof -
  have "set (y # ys) = set xs"
    using assms set_sort [of f xs] by simp
  moreover have "sorted (map f (y # ys))"
    using assms sorted_sort_key [of f xs] by simp
  ultimately show ?thesis
    by auto
qed

lemma selectPackage_first:
  assumes "premium_packages_error w = None"
    and "\<exists>r\<in>set (premium_packages w). matching months r"
  obtains r where "selectPackage w months = (Some r, None)"
    "r \<in> set (premium_packages w)" "matching months r"
    "\<forall>r'\<in>set (premium_packages w). matching months r' \<longrightarrow> orderKey r \<le> orderKey r'"
proof -
  let ?ms = "filter (matching months) (premium_packages w)"
  have "?ms \<noteq> []"
    using assms(2) by (simp add: filter_empty_conv)
  then have "sort_key orderKey ?ms \<noteq> []"
    by (metis length_sort length_0_conv)
  then obtain r rs where s: "sort_key orderKey ?ms = r # rs"
    by (cases "sort_key orderKey ?ms") auto
  then have "r \<in> set ?ms \<and> (\<forall>x\<in>set ?ms. orderKey r \<le> orderKey x)"
    by (rule sort_key_first)
  moreover have "selectPackage w months = (Some r, None)"
    using assms(1) s by (simp add: selectPackage_def)
  ultimately show ?thesis
    by (intro that [of r]) auto
qed

lemma resolve_stored:
  "selectPackage w (if paket = ''monthly'' then 1 else 12) = (Some r, None) \<Longrightarrow>
   resolve w paket = (price r, name r)"
  by (simp add: resolve_def priceQuote_def noPackage_def)

lemma orderKey_prefers:
  assumes "orderKey r \<le> orderKey r'" and "is_popular r \<noteq> None" and "is_popular r' \<noteq> None"
  shows "(is_popular r' = Some True \<longrightarrow> is_popular r = Some True)
         \<and> (is_popular r' = is_popular r \<longrightarrow> created_at r' \<le> created_at r)"
  using assms
  by (auto simp: orderKey_def popularRank_def split: option.splits bool.splits)

text \<open>
  C4, as the code has it. For a valid plan and any state of the package store, resolving the
  price never fails: the quote is a value, and the run always goes on to the insert into the
  ledger. When the query finds nothing (it fails, or no active package of the plan's duration
  is stored) the quote is the fallback, whose amount is positive and whose name is not empty.
  When the query answers a row, the quote is that row's stored price and name as they are;
  the handler checks neither.
\<close>

theorem quote_is_fallback_or_stored:
  assumes "paket = ''monthly'' \<or> paket = ''yearly''"
  shows "fst (getPricing w paket s) = resolve w paket
         \<and> (\<exists>t e. InsertTransaction t e \<in> set (trace (snd (createPayment w k u paket s))))
         \<and> (premium_packages_error w \<noteq> None
              \<or> filter (matching (if paket = ''monthly'' then 1 else 12)) (premium_packages w) = []
            \<longrightarrow> 0 < fst (resolve w paket) \<and> snd (resolve w paket) \<noteq> [])
         \<and> (\<forall>r. selectPackage w (if paket = ''monthly'' then 1 else 12) = (Some r, None) \<longrightarrow>
               resolve w paket = (price r, name r))"
proof -
  have "\<exists>t e. InsertTransaction t e \<in> set (trace (snd (createPayment w k u paket s)))"
  proof (cases "insert_error w (pendingRow w u paket) (transactions s)")
    case None
    then obtain es where
      "createPayment w k u paket s =
         createSnapTransaction w k (snapBody w u paket) (generateOrderId (id' u) (dateNow w))
           (recorded w u paket (transactions s) (trace s @ es))"
      by (rule createPayment_called)
    moreover obtain es' where
      "snd (createSnapTransaction w k (snapBody w u paket) (generateOrderId (id' u) (dateNow w))
             (recorded w u paket (transactions s) (trace s @ es))) =
         (recorded w u paket (transactions s) (trace s @ es))
           \<lparr>trace := trace (recorded w u paket (transactions s) (trace s @ es)) @
              [ConsoleLog [''Creating Midtrans Snap transaction...''],
               MidtransFetch k (snapBody w u paket)] @ es'\<rparr>"
      by (rule createSnapTransaction_trace)
    ultimately have "InsertTransaction (pendingRow w u paket) None
        \<in> set (trace (snd (createPayment w k u paket s)))"
      by (simp add: recorded_def)
    then show ?thesis by blast
  next
    case (Some e)
    then obtain es where
      "createPayment w k u paket s =
         (Inl ''Failed to create transaction record'',
          s\<lparr>trace := trace s @ es @
               [SelectProfile (id' u), InsertTransaction (pendingRow w u paket) (Some e),
                ConsoleError [''Transaction creation error:'', e]]\<rparr>)"
      by (rule createPayment_refused)
    then have "InsertTransaction (pendingRow w u paket) (Some e)
        \<in> set (trace (snd (createPayment w k u paket s)))"
      by simp
    then show ?thesis by blast
  qed
  moreover have "premium_packages_error w \<noteq> None
              \<or> filter (matching (if paket = ''monthly'' then 1 else 12)) (premium_packages w) = []
            \<longrightarrow> 0 < fst (resolve w paket) \<and> snd (resolve w paket) \<noteq> []"
    by (simp add: resolve_fallback selectPackage_noPackage fallbackAmount_def fallbackName_def)
  ultimately show ?thesis
    by (simp add: getPricing_resolve resolve_stored)
qed

theorem quote_is_fallback_or_stored_witness:
  "resolve sampleWorld ''monthly'' = (40000, ''Premium Membership 1 Bulan'')
   \<and> 0 < fst (resolve sampleWorld ''monthly'') \<and> snd (resolve sampleWorld ''monthly'') \<noteq> []
   \<and> resolve freeWorld ''monthly'' = (price freeMonth, name freeMonth)"
proof -
  have "selectPackage freeWorld 1 = (Some freeMonth, None)"
    by (simp add: handler_eval sample_eval package_eval)
  moreover have "premium_packages_error sampleWorld \<noteq> None
      \<or> filter (matching 1) (premium_packages sampleWorld) = []"
    by (simp add: sample_eval)
  moreover have "resolve sampleWorld ''monthly'' = (40000, ''Premium Membership 1 Bulan'')"
    by (simp add: handler_eval sample_eval)
  ultimately show ?thesis
    using quote_is_fallback_or_stored [of "''monthly''" sampleWorld]
      quote_is_fallback_or_stored [of "''monthly''" freeWorld]
    by simp
qed

text \<open>
  C4, as stated, fails: with an active one-month package stored whose price is 0 and whose
  name is empty, the quote for the monthly plan has amount 0 and an empty name.
\<close>

theorem stored_price_zero_is_quoted:
  "matching 1 freeMonth \<and> premium_packages freeWorld = [freeMonth]
   \<and> premium_packages_error freeWorld = None
   \<and> resolve freeWorld ''monthly'' = (0, [])
   \<and> \<not> (0 < fst (resolve freeWorld ''monthly'') \<and> snd (resolve freeWorld ''monthly'') \<noteq> [])"
  by (simp add: handler_eval sample_eval package_eval)

text \<open>
  The row the query answers, whatever the flags: when the query succeeds and at least one
  active package has the plan's duration, the quote is the stored price and name of one of
  these packages, never the fallback. No other of them comes before it in the order of the
  query: it has no popular flag if any of them has none; it is not flagged unpopular if any
  of them is flagged popular; and none with the same flag was created later.
\<close>

lemma orderKey_first:
  assumes "orderKey r \<le> orderKey r'"
  shows "(is_popular r' = None \<longrightarrow> is_popular r = None)
         \<and> (is_popular r' = Some True \<longrightarrow> is_popular r \<noteq> Some False)
         \<and> (is_popular r' = is_popular r \<longrightarrow> created_at r' \<le> created_at r)"
  using assms
  by (auto simp: orderKey_def popularRank_def split: option.splits bool.splits)

lemma stored_package_is_quoted:
  assumes "paket = ''monthly'' \<or> paket = ''yearly''"
    and "premium_packages_error w = None"
    and "\<exists>r\<in>set (premium_packages w). matching (if paket = ''monthly'' then 1 else 12) r"
  shows "\<exists>r\<in>set (premium_packages w).
           matching (if paket = ''monthly'' then 1 else 12) r
           \<and> resolve w paket = (price r, name r)
           \<and> (\<forall>r'\<in>set (premium_packages w).
                 matching (if paket = ''monthly'' then 1 else 12) r' \<longrightarrow>
                   (is_popular r' = None \<longrightarrow> is_popular r = None)
                   \<and> (is_popular r' = Some True \<longrightarrow> is_popular r \<noteq> Some False)
                   \<and> (is_popular r' = is_popular r \<longrightarrow> created_at r' \<le> created_at r))"
proof -
  let ?months = "if paket = ''monthly'' then 1 else (12::int)"
  from assms(2,3) obtain r where r:
    "selectPackage w ?months = (Some r, None)"
    "r \<in> set (premium_packages w)" "matching ?months r"
    "\<forall>r'\<in>set (premium_packages w). matching ?months r' \<longrightarrow> orderKey r \<le> orderKey r'"
    by (rule selectPackage_first)
  have "resolve w paket = (price r, name r)"
    using r(1) by (rule resolve_stored)
  moreover have "\<forall>r'\<in>set (premium_packages w). matching ?months r' \<longrightarrow>
                   (is_popular r' = None \<longrightarrow> is_popular r = None)
                   \<and> (is_popular r' = Some True \<longrightarrow> is_popular r \<noteq> Some False)
                   \<and> (is_popular r' = is_popular r \<longrightarrow> created_at r' \<le> created_at r)"
    using r(4) orderKey_first by blast
  ultimately show ?thesis
    using r(2,3) by blast
qed

text \<open>
  Where the popular flag of every such package is set, true or false, the package quoted is
  flagged popular if any of them is, and is the most recently created among those with its
  flag: there the query does what its order asks for.
\<close>

lemma flagged_packages_prefer_popular:
  assumes "paket = ''monthly'' \<or> paket = ''yearly''"
    and "premium_packages_error w = None"
    and "\<exists>r\<in>set (premium_packages w). matching (if paket = ''monthly'' then 1 else 12) r"
    and "\<forall>r\<in>set (premium_packages w).
           matching (if paket = ''monthly'' then 1 else 12) r \<longrightarrow> is_popular r \<noteq> None"
  shows "\<exists>r\<in>set (premium_packages w).
           matching (if paket = ''monthly'' then 1 else 12) r
           \<and> resolve w paket = (price r, name r)
           \<and> (\<forall>r'\<in>set (premium_packages w).
                 matching (if paket = ''monthly'' then 1 else 12) r' \<longrightarrow>
                   (is_popular r' = Some True \<longrightarrow> is_popular r = Some True)
                   \<and> (is_popular r' = is_popular r \<longrightarrow> created_at r' \<le> created_at r))"
proof -
  let ?months = "if paket = ''monthly'' then 1 else (12::int)"
  from assms(2,3) obtain r where r:
    "selectPackage w ?months = (Some r, None)"
    "r \<in> set (premium_packages w)" "matching ?months r"
    "\<forall>r'\<in>set (premium_packages w). matching ?months r' \<longrightarrow> orderKey r \<le> orderKey r'"
    by (rule selectPackage_first)
  have "resolve w paket = (price r, name r)"
    using r(1) by (rule resolve_stored)
  moreover have "\<forall>r'\<in>set (premium_packages w). matching ?months r' \<longrightarrow>
                   (is_popular r' = Some True \<longrightarrow> is_popular r = Some True)
                   \<and> (is_popular r' = is_popular r \<longrightarrow> created_at r' \<le> created_at r)"
    using r(2,3,4) assms(4) orderKey_prefers by blast
  ultimately show ?thesis
    using r(2,3) by blast
qed

text \<open>
  With a package flagged popular and a more recent one that is not, both with their flags
  set, the yearly quote is the popular one, as stored.
\<close>

lemma resolve_promoWorld: "resolve promoWorld ''yearly'' = (300000, ''Annual Popular'')"
  by (simp add: handler_eval sample_eval package_eval)

lemma flagged_packages_prefer_popular_sample:
  "premium_packages_error promoWorld = None
   \<and> matching 12 annualPromo \<and> matching 12 annualPopular
   \<and> resolve promoWorld ''yearly'' = (price annualPopular, name annualPopular)
   \<and> (\<exists>r\<in>set (premium_packages promoWorld).
         matching 12 r \<and> resolve promoWorld ''yearly'' = (price r, name r)
         \<and> (\<forall>r'\<in>set (premium_packages promoWorld). matching 12 r' \<longrightarrow>
               (is_popular r' = Some True \<longrightarrow> is_popular r = Some True)
               \<and> (is_popular r' = is_popular r \<longrightarrow> created_at r' \<le> created_at r)))"
proof -
  have h: "premium_packages_error promoWorld = None"
      "\<exists>r\<in>set (premium_packages promoWorld). matching (if ''yearly'' = ''monthly'' then 1 else 12) r"
      "\<forall>r\<in>set (premium_packages promoWorld).
         matching (if ''yearly'' = ''monthly'' then 1 else 12) r \<longrightarrow> is_popular r \<noteq> None"
    by (auto simp: sample_eval package_eval matching_def)
  have m: "matching 12 annualPromo" "matching 12 annualPopular"
    by (simp_all add: annualPromo_def annualPopular_def matching_def)
  have q: "resolve promoWorld ''yearly'' = (price annualPopular, name annualPopular)"
    by (simp add: resolve_promoWorld annualPopular_def)
  from flagged_packages_prefer_popular [of "''yearly''" promoWorld, OF _ h] h(1) m q
  show ?thesis by simp
qed

lemma serve_unflaggedWorld:
  "InsertTransaction
     \<lparr>tx_user_id = ''abc12345-6789-4def'', tx_paket = ''yearly'', tx_amount = 390000,
      tx_midtrans_order_id = ''prem-abc12345-1700000000000'', tx_status = ''pending''\<rparr> None
     \<in> set (trace (snd (serve unflaggedWorld yearlyRequest [])))"
  by (simp add: handler_eval sample_eval package_eval)

text \<open>
  C6. The claim holds of the handler except where a matching package has no popular flag;
  there the handler departs from it. The package query succeeds on a store with two active
  twelve-month packages: one flagged popular, at 300000, and one whose popular flag is
  \<^verbatim>\<open>NULL\<close>, at 390000. The claim prefers the package flagged popular. The handler quotes the
  unflagged one, and writes its price into the pending row of a yearly request: the query
  orders by \<^verbatim>\<open>is_popular\<close> descending, to put the popular packages first, and in that order
  \<^verbatim>\<open>NULL\<close> comes before \<^verbatim>\<open>true\<close>.
\<close>

theorem unflagged_package_beats_popular:
  "premium_packages_error unflaggedWorld = None
   \<and> premium_packages unflaggedWorld = [annualPopular, annualUnflagged]
   \<and> matching 12 annualPopular \<and> matching 12 annualUnflagged
   \<and> is_popular annualPopular = Some True \<and> is_popular annualUnflagged = None
   \<and> (price annualPopular, name annualPopular) = (300000, ''Annual Popular'')
   \<and> resolve unflaggedWorld ''yearly'' = (price annualUnflagged, name annualUnflagged)
   \<and> resolve unflaggedWorld ''yearly'' = (390000, ''Annual Draft'')
   \<and> tx_amount (pendingRow unflaggedWorld sampleUser ''yearly'') = 390000
   \<and> InsertTransaction (pendingRow unflaggedWorld sampleUser ''yearly'') None
       \<in> set (trace (snd (serve unflaggedWorld yearlyRequest [])))"
proof -
  have r: "resolve unflaggedWorld ''yearly'' = (390000, ''Annual Draft'')"
    by (simp add: handler_eval sample_eval package_eval)
  have p: "pendingRow unflaggedWorld sampleUser ''yearly'' =
      \<lparr>tx_user_id = ''abc12345-6789-4def'', tx_paket = ''yearly'', tx_amount = 390000,
       tx_midtrans_order_id = ''prem-abc12345-1700000000000'', tx_status = ''pending''\<rparr>"
  proof -
    have "dateNow unflaggedWorld = 1700000000000"
      by (simp add: unflaggedWorld_def sampleWorld_def)
    then show ?thesis
      by (simp add: pendingRow_def r pendingTransaction_def generateOrderId_def substring0_def
            toString_eval sampleUser_def)
  qed
  have "premium_packages_error unflaggedWorld = None"
      "premium_packages unflaggedWorld = [annualPopular, annualUnflagged]"
    by (simp_all add: unflaggedWorld_def sampleWorld_def)
  moreover have "matching 12 annualPopular" "matching 12 annualUnflagged"
      "is_popular annualPopular = Some True" "is_popular annualUnflagged = None"
      "(price annualPopular, name annualPopular) = (300000, ''Annual Popular'')"
      "(price annualUnflagged, name annualUnflagged) = (390000, ''Annual Draft'')"
    by (simp_all add: annualPopular_def annualUnflagged_def matching_def)
  ultimately show ?thesis
    using r p serve_unflaggedWorld by simp
qed

subsection \<open>The order identifier\<close>

text \<open>
  C7. The order identifier is a function of the user's id and the millisecond timestamp
  alone: \<^verbatim>\<open>prem-\<close>, the first 8 characters of the id, a hyphen, and the timestamp in decimal
  (a rendering from which the timestamp can be read back). For a fixed user, two timestamps
  give the same identifier only when they are equal.
\<close>

theorem order_id_format_and_injective:
  "generateOrderId userId now = ''prem-'' @ take 8 userId @ ''-'' @ toString now
   \<and> parseInt (toString now) = now
   \<and> (generateOrderId userId now = generateOrderId userId now' \<longleftrightarrow> now = now')"
  by (simp add: generateOrderId_def substring0_def parseInt_toString toString_inject)

theorem order_id_format_and_injective_witness:
  "generateOrderId ''abc12345-6789-4def'' 1700000000000 = ''prem-abc12345-1700000000000''
   \<and> parseInt ''1700000000000'' = 1700000000000
   \<and> generateOrderId ''abc12345-6789-4def'' 1700000000000
       \<noteq> generateOrderId ''abc12345-6789-4def'' 1700000000001"
  using order_id_format_and_injective [of "''abc12345-6789-4def''" 1700000000000 1700000000001]
  by (simp add: generateOrderId_def substring0_def toString_eval)

subsection \<open>The ledger and the gateway\<close>

text \<open>
  C1. In a run in which a request is sent to the gateway, an insert of a row into the ledger
  has completed without error among the events before that request; the row is pending, it
  carries the order identifier of the request, and it is in the ledger at the end. In a run
  in which the insert is refused, no request is sent to the gateway, the ledger is as it
  was and the response has status 500.
\<close>

theorem write_before_call:
  "(MidtransFetch k g \<in> set (trace (snd (serve w req ledger))) \<longrightarrow>
      (\<exists>t. InsertTransaction t None
             \<in> set (takeWhile (\<lambda>e. e \<noteq> MidtransFetch k g) (trace (snd (serve w req ledger))))
           \<and> insert_error w t ledger = None
           \<and> tx_midtrans_order_id t = order_id (transaction_details g)
           \<and> tx_status t = ''pending''
           \<and> t \<in> set (transactions (snd (serve w req ledger)))))
   \<and> (InsertTransaction t' (Some e) \<in> set (trace (snd (serve w req ledger))) \<longrightarrow>
        (\<forall>k g. MidtransFetch k g \<notin> set (trace (snd (serve w req ledger))))
        \<and> transactions (snd (serve w req ledger)) = ledger
        \<and> resp_status (fst (serve w req ledger)) = 500)"
proof (rule conjI; rule impI)
  assume "MidtransFetch k g \<in> set (trace (snd (serve w req ledger)))"
  then obtain u paket es es' where r:
    "g = snapBody w u paket"
    "insert_error w (pendingRow w u paket) ledger = None"
    "snd (serve w req ledger) =
       \<lparr>transactions = ledger @ [pendingRow w u paket],
        trace = es @ [SelectProfile (id' u), InsertTransaction (pendingRow w u paket) None,
                      ConsoleLog [''Creating Midtrans Snap transaction...''],
                      MidtransFetch k g] @ es'\<rparr>"
    "list_all plain es"
    by (rule reached_gateway)
  let ?pre = "es @ [SelectProfile (id' u), InsertTransaction (pendingRow w u paket) None,
                    ConsoleLog [''Creating Midtrans Snap transaction...'']]"
  have "MidtransFetch k g \<notin> set ?pre"
    using r(4) by (simp add: plain_no_fetch)
  then have "takeWhile (\<lambda>e. e \<noteq> MidtransFetch k g) (?pre @ MidtransFetch k g # es') = ?pre"
    by (rule takeWhile_before)
  then have "takeWhile (\<lambda>e. e \<noteq> MidtransFetch k g) (trace (snd (serve w req ledger))) = ?pre"
    using r(3) by simp
  moreover have "tx_midtrans_order_id (pendingRow w u paket) = order_id (transaction_details g)"
      "tx_status (pendingRow w u paket) = ''pending''"
    using r(1) by (simp_all add: pendingRow_def snapBody_def pendingTransaction_def snapRequest_def)
  ultimately show "\<exists>t. InsertTransaction t None
             \<in> set (takeWhile (\<lambda>e. e \<noteq> MidtransFetch k g) (trace (snd (serve w req ledger))))
           \<and> insert_error w t ledger = None
           \<and> tx_midtrans_order_id t = order_id (transaction_details g)
           \<and> tx_status t = ''pending''
           \<and> t \<in> set (transactions (snd (serve w req ledger)))"
    using r(2,3) by (intro exI [of _ "pendingRow w u paket"]) simp
next
  assume a: "InsertTransaction t' (Some e) \<in> set (trace (snd (serve w req ledger)))"
  show "(\<forall>k g. MidtransFetch k g \<notin> set (trace (snd (serve w req ledger))))
        \<and> transactions (snd (serve w req ledger)) = ledger
        \<and> resp_status (fst (serve w req ledger)) = 500"
  proof (cases rule: serve_cases [of req w ledger])
    case preflight
    with a show ?thesis by simp
  next
    case (aborted m es)
    with a show ?thesis by (simp add: plain_no_insert)
  next
    case (refused u paket e es)
    then show ?thesis by (simp add: plain_no_fetch errorResponse_def)
  next
    case (called u paket k es)
    from called(5) obtain es' where
      "snd (serve w req ledger) =
         \<lparr>transactions = ledger @ [pendingRow w u paket],
          trace = es @ [SelectProfile (id' u), InsertTransaction (pendingRow w u paket) None,
                        ConsoleLog [''Creating Midtrans Snap transaction...''],
                        MidtransFetch k (snapBody w u paket)] @ es'\<rparr>"
      "list_all plain es'"
      by (rule called_state)
    with a called(6) show ?thesis by (auto simp: plain_no_insert)
  qed
qed

theorem write_before_call_witness:
  "MidtransFetch ''server-key'' (snapBody sampleWorld sampleUser ''monthly'')
     \<in> set (trace (snd (serve sampleWorld sampleRequest [])))
   \<and> (\<exists>t. InsertTransaction t None
           \<in> set (takeWhile
                 (\<lambda>e. e \<noteq> MidtransFetch ''server-key'' (snapBody sampleWorld sampleUser ''monthly''))
                 (trace (snd (serve sampleWorld sampleRequest []))))
         \<and> tx_midtrans_order_id t = ''prem-abc12345-1700000000000''
         \<and> tx_status t = ''pending''
         \<and> t \<in> set (transactions (snd (serve sampleWorld sampleRequest []))))
   \<and> InsertTransaction (pendingRow refusingWorld sampleUser ''monthly'') (Some ''duplicate key value'')
       \<in> set (trace (snd (serve refusingWorld sampleRequest [])))
   \<and> (\<forall>k g. MidtransFetch k g \<notin> set (trace (snd (serve refusingWorld sampleRequest []))))
   \<and> transactions (snd (serve refusingWorld sampleRequest [])) = []
   \<and> resp_status (fst (serve refusingWorld sampleRequest [])) = 500"
proof -
  have f: "MidtransFetch ''server-key'' (snapBody sampleWorld sampleUser ''monthly'')
      \<in> set (trace (snd (serve sampleWorld sampleRequest [])))"
    by (simp add: serve_sample_state)
  have o: "order_id (transaction_details (snapBody sampleWorld sampleUser ''monthly''))
      = ''prem-abc12345-1700000000000''"
    by (simp add: snapBody_def handler_eval sample_eval)
  have i: "InsertTransaction (pendingRow refusingWorld sampleUser ''monthly'')
        (Some ''duplicate key value'')
      \<in> set (trace (snd (serve refusingWorld sampleRequest [])))"
    by (simp add: handler_eval sample_eval refusingWorld_def pendingRow_def)
  from write_before_call [of "''server-key''" "snapBody sampleWorld sampleUser ''monthly''"
      sampleWorld sampleRequest "[]", THEN conjunct1, rule_format, OF f]
    write_before_call [of _ _ refusingWorld sampleRequest "[]"
      "pendingRow refusingWorld sampleUser ''monthly''" "''duplicate key value''",
      THEN conjunct2, rule_format, OF i] f o i
  show ?thesis by auto
qed

text \<open>
  C8. When the request sent to the gateway fails, because the gateway answers a status
  outside 200-299 or because the call throws, the row written before is still there: the
  ledger at the end is the ledger at the start followed by that one row, pending and
  carrying the order identifier of the request; the response is the failure response with
  status 500.
\<close>

theorem pending_row_survives_gateway_failure:
  assumes "MidtransFetch k g \<in> set (trace (snd (serve w req ledger)))"
    and "(\<exists>m. fetch w k g = Threw m) \<or> (\<exists>r. fetch w k g = Returned r \<and> \<not> ok r)"
  shows "\<exists>t. transactions (snd (serve w req ledger)) = ledger @ [t]
             \<and> tx_status t = ''pending''
             \<and> tx_midtrans_order_id t = order_id (transaction_details g)
             \<and> resp_status (fst (serve w req ledger)) = 500
             \<and> (\<exists>m. resp_body (fst (serve w req ledger)) = ErrorBody m)"
proof -
  from assms(1) obtain u paket es es' where r:
    "g = snapBody w u paket"
    "serve w req ledger =
       (case createSnapTransaction w k g (generateOrderId (id' u) (dateNow w))
               (recorded w u paket ledger es) of
          (Inl m, s') \<Rightarrow> catchBlock m s'
        | (Inr resp, s') \<Rightarrow> (resp, s'))"
    "snd (serve w req ledger) =
       \<lparr>transactions = ledger @ [pendingRow w u paket],
        trace = es @ [SelectProfile (id' u), InsertTransaction (pendingRow w u paket) None,
                      ConsoleLog [''Creating Midtrans Snap transaction...''],
                      MidtransFetch k g] @ es'\<rparr>"
    by (rule reached_gateway)
  from r(2) assms(2) obtain m where "fst (serve w req ledger) = errorResponse m"
    using gateway_failure_response by blast
  then have "resp_status (fst (serve w req ledger)) = 500"
      "\<exists>m. resp_body (fst (serve w req ledger)) = ErrorBody m"
    by (simp_all add: errorResponse_def)
  moreover have "tx_midtrans_order_id (pendingRow w u paket) = order_id (transaction_details g)"
      "tx_status (pendingRow w u paket) = ''pending''"
    using r(1) by (simp_all add: pendingRow_def snapBody_def pendingTransaction_def snapRequest_def)
  ultimately show ?thesis
    using r(3) by (intro exI [of _ "pendingRow w u paket"]) simp
qed

theorem pending_row_survives_gateway_failure_witness:
  "MidtransFetch ''server-key'' (snapBody sampleWorld sampleUser ''monthly'')
     \<in> set (trace (snd (serve sampleWorld sampleRequest [])))
   \<and> fetch sampleWorld ''server-key'' (snapBody sampleWorld sampleUser ''monthly'')
       = Returned sampleRejection
   \<and> gw_status sampleRejection = 503 \<and> \<not> ok sampleRejection
   \<and> (\<exists>t. transactions (snd (serve sampleWorld sampleRequest [])) = [] @ [t]
         \<and> tx_status t = ''pending''
         \<and> tx_midtrans_order_id t = ''prem-abc12345-1700000000000''
         \<and> resp_status (fst (serve sampleWorld sampleRequest [])) = 500)"
proof -
  have f: "MidtransFetch ''server-key'' (snapBody sampleWorld sampleUser ''monthly'')
      \<in> set (trace (snd (serve sampleWorld sampleRequest [])))"
    by (simp add: serve_sample_state)
  have r: "fetch sampleWorld ''server-key'' (snapBody sampleWorld sampleUser ''monthly'')
      = Returned sampleRejection" "gw_status sampleRejection = 503" "\<not> ok sampleRejection"
    by (simp_all add: sample_eval ok_def)
  then have g: "(\<exists>m. fetch sampleWorld ''server-key'' (snapBody sampleWorld sampleUser ''monthly'')
        = Threw m)
      \<or> (\<exists>r. fetch sampleWorld ''server-key'' (snapBody sampleWorld sampleUser ''monthly'')
        = Returned r \<and> \<not> ok r)"
    by simp
  have o: "order_id (transaction_details (snapBody sampleWorld sampleUser ''monthly''))
      = ''prem-abc12345-1700000000000''"
    by (simp add: snapBody_def handler_eval sample_eval)
  from pending_row_survives_gateway_failure [OF f g] f r o
  show ?thesis by auto
qed







end
